theory Spec2Isabelle
  imports Complex_Main
begin

section \<open>Numbers of the program\<close>

text \<open>
  The calculators of \<^verbatim>\<open>financial-calculations.ts\<close> work on JavaScript numbers.  They
  are modelled as exact reals extended by the three non-finite values of the language:
  rounding and overflow are idealised away and zero carries no sign, but a division by
  zero yields an infinity or \<open>NaN\<close> as it does in the program (it never raises), and the
  non-finite values propagate through arithmetic and comparisons as they do there.
  A property that turns on rounding, on overflow or on underflow cannot be stated over these
  numbers.
\<close>

datatype number = Fin real | PInf | NInf | NaN

fun fin :: "number \<Rightarrow> bool" where
  "fin (Fin a) = True"
| "fin x = False"

instantiation number :: "{zero, one, plus, uminus, minus, times, inverse, abs, ord}"
begin

definition zero_number :: number where
  "zero_number = Fin 0"

definition one_number :: number where
  "one_number = Fin 1"

fun plus_number :: "number \<Rightarrow> number \<Rightarrow> number" where
  "Fin a + Fin b = Fin (a + b)"
| "NaN + y = NaN"
| "x + NaN = NaN"
| "PInf + NInf = NaN"
| "NInf + PInf = NaN"
| "PInf + y = PInf"
| "NInf + y = NInf"
| "x + PInf = PInf"
| "x + NInf = NInf"

fun uminus_number :: "number \<Rightarrow> number" where
  "- Fin a = Fin (- a)"
| "- PInf = NInf"
| "- NInf = PInf"
| "- NaN = NaN"

definition minus_number :: "number \<Rightarrow> number \<Rightarrow> number" where
  "minus_number x y = x + (- y)"

fun times_number :: "number \<Rightarrow> number \<Rightarrow> number" where
  "Fin a * Fin b = Fin (a * b)"
| "NaN * y = NaN"
| "x * NaN = NaN"
| "Fin a * PInf = (if a = 0 then NaN else if 0 < a then PInf else NInf)"
| "Fin a * NInf = (if a = 0 then NaN else if 0 < a then NInf else PInf)"
| "PInf * Fin b = (if b = 0 then NaN else if 0 < b then PInf else NInf)"
| "NInf * Fin b = (if b = 0 then NaN else if 0 < b then NInf else PInf)"
| "PInf * PInf = PInf"
| "PInf * NInf = NInf"
| "NInf * PInf = NInf"
| "NInf * NInf = PInf"

fun divide_number :: "number \<Rightarrow> number \<Rightarrow> number" where
  "Fin a div Fin b =
     (if b = 0 then (if a = 0 then NaN else if 0 < a then PInf else NInf)
      else Fin (a / b))"
| "NaN div y = NaN"
| "x div NaN = NaN"
| "Fin a div y = Fin 0"
| "PInf div Fin b = (if 0 \<le> b then PInf else NInf)"
| "NInf div Fin b = (if 0 \<le> b then NInf else PInf)"
| "x div y = NaN"

definition inverse_number :: "number \<Rightarrow> number" where
  "inverse_number x = Fin 1 div x"

fun abs_number :: "number \<Rightarrow> number" where
  "\<bar>Fin a\<bar> = Fin \<bar>a\<bar>"
| "\<bar>NaN\<bar> = NaN"
| "\<bar>x\<bar> = PInf"

fun less_eq_number :: "number \<Rightarrow> number \<Rightarrow> bool" where
  "Fin a \<le> Fin b \<longleftrightarrow> a \<le> b"
| "NaN \<le> y \<longleftrightarrow> False"
| "x \<le> NaN \<longleftrightarrow> False"
| "NInf \<le> y \<longleftrightarrow> True"
| "x \<le> PInf \<longleftrightarrow> True"
| "(x::number) \<le> y \<longleftrightarrow> False"

fun less_number :: "number \<Rightarrow> number \<Rightarrow> bool" where
  "Fin a < Fin b \<longleftrightarrow> a < b"
| "NaN < y \<longleftrightarrow> False"
| "x < NaN \<longleftrightarrow> False"
| "PInf < y \<longleftrightarrow> False"
| "x < NInf \<longleftrightarrow> False"
| "(x::number) < y \<longleftrightarrow> True"

instance ..

end

instance number :: power ..

instance number :: semigroup_add
proof
  fix a b c :: number
  show "a + b + c = a + (b + c)"
    by (cases a; cases b; cases c) simp_all
qed

instance number :: numeral ..

text \<open>
  \<open>Math.min\<close> returns \<open>NaN\<close> when either argument is; \<open>Math.pow\<close> is only called with
  whole exponents (a year count times twelve, or a loop index plus one), and \<open>Math.pow(x, 0)\<close> is 1
  for every \<open>x\<close>; a value is falsy under \<open>||\<close> when it is zero or \<open>NaN\<close>.
\<close>

definition Math_min :: "number \<Rightarrow> number \<Rightarrow> number" where
  "Math_min x y = (if x = NaN \<or> y = NaN then NaN else if x \<le> y then x else y)"

definition Math_pow :: "number \<Rightarrow> int \<Rightarrow> number" where
  "Math_pow x n = (if 0 \<le> n then x ^ nat n else 1 / x ^ nat (- n))"

definition truthy :: "number \<Rightarrow> bool" where
  "truthy x \<longleftrightarrow> x \<noteq> Fin 0 \<and> x \<noteq> NaN"

definition number_of_int :: "int \<Rightarrow> number" where
  "number_of_int k = Fin (of_int k)"

section \<open>Primitives (\<^verbatim>\<open>financial-calculations.ts\<close>)\<close>

definition calculateMonthlyPayment :: "number \<Rightarrow> number \<Rightarrow> int \<Rightarrow> number" where
  "calculateMonthlyPayment principal annualRate years =
     (if annualRate = 0 then principal / number_of_int (years * 12)
      else
        let monthlyRate = annualRate / 100 / 12;
            numPayments = years * 12
        in principal * (monthlyRate * Math_pow (1 + monthlyRate) numPayments) /
           (Math_pow (1 + monthlyRate) numPayments - 1))"
  for principal annualRate years

text \<open>\<open>reduce\<close> with the element's index: the flow at index \<open>year\<close> is discounted \<open>year + 1\<close> times.\<close>

definition calculateNPV :: "number list \<Rightarrow> number \<Rightarrow> number" where
  "calculateNPV cashFlows discountRate =
     foldl (\<lambda>npv (year, cashFlow).
              npv + cashFlow / Math_pow (1 + discountRate / 100) (int year + 1))
       0 (enumerate 0 cashFlows)"

text \<open>The inner loop of \<open>calculateIRR\<close>: the value and the derivative at \<open>rate\<close>.\<close>

definition irrSums :: "number list \<Rightarrow> number \<Rightarrow> number \<times> number" where
  "irrSums cashFlows rate =
     foldl (\<lambda>(npv, derivative) (j, cashFlow).
              let factor = Math_pow (1 + rate) (int j + 1)
              in (npv + cashFlow / factor,
                  derivative - number_of_int (int j + 1) * cashFlow / (factor * (1 + rate))))
       (0, 0) (enumerate 0 cashFlows)"

text \<open>
  The outer loop, by the number of iterations left of \<open>maxIterations\<close>: it stops early once
  \<open>|npv|\<close> is below the tolerance, and otherwise takes a Newton step.
\<close>

fun irrLoop :: "number list \<Rightarrow> number \<Rightarrow> nat \<Rightarrow> number \<Rightarrow> number" where
  "irrLoop cashFlows tolerance 0 rate = rate"
| "irrLoop cashFlows tolerance (Suc n) rate =
     (case irrSums cashFlows rate of
        (npv, derivative) \<Rightarrow>
          if \<bar>npv\<bar> < tolerance then rate
          else irrLoop cashFlows tolerance n (rate - npv / derivative))"

definition calculateIRR :: "number list \<Rightarrow> number" where
  "calculateIRR cashFlows =
     (let rate = 0.1;
          tolerance = 0.0001;
          maxIterations = 100
      in irrLoop cashFlows tolerance maxIterations rate * 100)"

text \<open>
  \<open>for (let year = from; year <= termLength; year++) { body; if (stop) break; }\<close> over a
  state \<open>s\<close> of the variables the body assigns.
\<close>

function forYears :: "(int \<Rightarrow> 's \<Rightarrow> 's) \<Rightarrow> ('s \<Rightarrow> bool) \<Rightarrow> int \<Rightarrow> int \<Rightarrow> 's \<Rightarrow> 's" where
  "forYears body stop year termLength s =
     (if year \<le> termLength then
        (let s' = body year s
         in if stop s' then s' else forYears body stop (year + 1) termLength s')
      else s)"
  by pat_completeness auto
termination
  by (relation "measure (\<lambda>(body, stop, year, termLength, s). nat (termLength + 1 - year))") auto

declare forYears.simps [simp del]

section \<open>Data model (\<^verbatim>\<open>deal-types.ts\<close>)\<close>

datatype DealType = AllCash | EarnOut | SellerFinancing | SBALoan | Custom

text \<open>
  \<open>termLength\<close> is a whole number of years, as the specification has it (it may be zero or
  negative; a fractional term is outside this model); the two optional fields are \<open>None\<close>
  when the property is absent (\<open>undefined\<close>).
\<close>

record DealInputs =
  purchasePrice :: number
  termLength :: int
  interestRate :: number
  taxRate :: number
  equityRetained :: number
  downPayment :: "number option"
  balloonPayment :: "number option"

record CashFlowRow =
  year :: int
  principal :: number
  interest :: number
  equityReturns :: number
  preTaxTotal :: number
  taxImpact :: number
  netCashFlow :: number
  cumulative :: number

record DealResults =
  totalInvestment :: number
  netProceeds :: number
  roi :: number
  irr :: number
  cashFlow :: "CashFlowRow list"
  npv :: number

record ComparisonData =
  dealType :: DealType
  label :: string
  results :: DealResults
  color :: string

text \<open>The only exception the calculators can raise: \<open>Array(n)\<close> with an invalid length.\<close>

datatype error = RangeError

section \<open>Structure calculators (\<^verbatim>\<open>financial-calculations.ts\<close>)\<close>

text \<open>
  Each calculator is written as in the source: the constants computed before the loop, the
  loop over the years (its body is the function named \<open>\<dots>Year\<close>, on the variables the
  loop assigns), and the summary computed after it.
\<close>

subsection \<open>All-cash\<close>

text \<open>\<open>Array(n)\<close> raises \<open>RangeError\<close> unless \<open>n\<close> is a whole number in \<open>0 .. 2^32 - 1\<close>.\<close>

definition validArrayLength :: "int \<Rightarrow> bool" where
  "validArrayLength n \<longleftrightarrow> 0 \<le> n \<and> n < 2 ^ 32"

definition allCashYear :: "number \<Rightarrow> int \<Rightarrow> CashFlowRow list \<Rightarrow> CashFlowRow list" where
  "allCashYear netProceeds year cashFlow =
     cashFlow @
       [\<lparr>year = year, principal = 0, interest = 0, equityReturns = 0, preTaxTotal = 0,
         taxImpact = 0, netCashFlow = 0, cumulative = netProceeds\<rparr>]"
  for netProceeds year cashFlow

definition calculateAllCash :: "DealInputs \<Rightarrow> error + DealResults" where
  "calculateAllCash inputs =
     (let purchasePrice = purchasePrice inputs;
          taxRate = taxRate inputs;
          taxImpact = purchasePrice * (taxRate / 100);
          netProceeds = purchasePrice - taxImpact;
          cashFlow =
            [\<lparr>year = 1, principal = purchasePrice, interest = 0, equityReturns = 0,
              preTaxTotal = purchasePrice, taxImpact = - taxImpact,
              netCashFlow = netProceeds, cumulative = netProceeds\<rparr>];
          cashFlow = forYears (allCashYear netProceeds) (\<lambda>s. False) 2 (termLength inputs) cashFlow
      in if \<not> validArrayLength (termLength inputs - 1) then Inl RangeError
         else
           let cashFlowValues = purchasePrice # replicate (nat (termLength inputs - 1)) 0;
               npv = calculateNPV cashFlowValues 8;
               roi = ((netProceeds - purchasePrice) / purchasePrice) * 100
           in Inr \<lparr>totalInvestment = purchasePrice, netProceeds = netProceeds, roi = roi,
                   irr = 0, cashFlow = cashFlow, npv = npv\<rparr>)"

subsection \<open>Earn-out\<close>

fun earnOutYear :: "number \<Rightarrow> number \<Rightarrow> int \<Rightarrow> number \<times> CashFlowRow list \<Rightarrow> number \<times> CashFlowRow list" where
  "earnOutYear taxRate annualEarnOut year (cumulative, cashFlow) =
     (let earnOutTax = annualEarnOut * (taxRate / 100);
          earnOutNet = annualEarnOut - earnOutTax;
          cumulative = cumulative + earnOutNet
      in (cumulative,
          cashFlow @
            [\<lparr>year = year, principal = annualEarnOut, interest = 0, equityReturns = 0,
              preTaxTotal = annualEarnOut, taxImpact = - earnOutTax,
              netCashFlow = earnOutNet, cumulative = cumulative\<rparr>]))"
  for taxRate annualEarnOut year cumulative cashFlow

definition calculateEarnOut :: "DealInputs \<Rightarrow> DealResults" where
  "calculateEarnOut inputs =
     (let purchasePrice = purchasePrice inputs;
          termLength = termLength inputs;
          taxRate = taxRate inputs;
          upfrontPayment = purchasePrice * 0.6;
          earnOutAmount = purchasePrice * 0.4;
          annualEarnOut = earnOutAmount / number_of_int (termLength - 1);
          cumulative = 0;
          year1Tax = upfrontPayment * (taxRate / 100);
          year1Net = upfrontPayment - year1Tax;
          cumulative = cumulative + year1Net;
          cashFlow =
            [\<lparr>year = 1, principal = upfrontPayment, interest = 0, equityReturns = 0,
              preTaxTotal = upfrontPayment, taxImpact = - year1Tax,
              netCashFlow = year1Net, cumulative = cumulative\<rparr>];
          (cumulative, cashFlow) =
            forYears (earnOutYear taxRate annualEarnOut) (\<lambda>s. False) 2 termLength
              (cumulative, cashFlow);
          cashFlowValues = map netCashFlow cashFlow;
          npv = calculateNPV cashFlowValues 8;
          irr = calculateIRR (- upfrontPayment # drop 1 cashFlowValues)
      in \<lparr>totalInvestment = upfrontPayment, netProceeds = cumulative,
           roi = ((cumulative - upfrontPayment) / upfrontPayment) * 100,
           irr = irr, cashFlow = cashFlow, npv = npv\<rparr>)"

subsection \<open>Seller financing\<close>

fun sellerFinancingYear ::
  "number \<Rightarrow> number \<Rightarrow> number \<Rightarrow> number \<Rightarrow> number \<Rightarrow> number \<Rightarrow> int \<Rightarrow>
   number \<times> number \<times> CashFlowRow list \<Rightarrow> number \<times> number \<times> CashFlowRow list" where
  "sellerFinancingYear interestRate taxRate downPayment annualPayment downTax downNet year
     (remainingBalance, cumulative, cashFlow) =
     (let interestPayment = remainingBalance * (interestRate / 100);
          principalPayment = Math_min (annualPayment - interestPayment) remainingBalance;
          totalPayment = principalPayment + interestPayment;
          paymentTax = totalPayment * (taxRate / 100);
          netPayment = totalPayment - paymentTax;
          (cumulative, cashFlow) =
            (if year = 1 then
               let totalYear1 = downNet + netPayment;
                   cumulative = totalYear1
               in (cumulative,
                   cashFlow @
                     [\<lparr>year = year, principal = downPayment + principalPayment,
                       interest = interestPayment, equityReturns = 0,
                       preTaxTotal = downPayment + totalPayment,
                       taxImpact = - (downTax + paymentTax),
                       netCashFlow = totalYear1, cumulative = cumulative\<rparr>])
             else
               let cumulative = cumulative + netPayment
               in (cumulative,
                   cashFlow @
                     [\<lparr>year = year, principal = principalPayment,
                       interest = interestPayment, equityReturns = 0,
                       preTaxTotal = totalPayment, taxImpact = - paymentTax,
                       netCashFlow = netPayment, cumulative = cumulative\<rparr>]));
          remainingBalance = remainingBalance - principalPayment
      in (remainingBalance, cumulative, cashFlow))"
  for interestRate taxRate downPayment annualPayment downTax downNet year
    remainingBalance cumulative cashFlow

text \<open>The loop stops after the year in which the balance is paid off.\<close>

fun paidOff :: "number \<times> number \<times> CashFlowRow list \<Rightarrow> bool" where
  "paidOff (remainingBalance, cumulative, cashFlow) \<longleftrightarrow> remainingBalance \<le> 0"
  for remainingBalance cumulative cashFlow

definition calculateSellerFinancing :: "DealInputs \<Rightarrow> DealResults" where
  "calculateSellerFinancing inputs =
     (let purchasePrice = purchasePrice inputs;
          termLength = termLength inputs;
          interestRate = interestRate inputs;
          taxRate = taxRate inputs;
          downPayment = purchasePrice * 0.2;
          financedAmount = purchasePrice - downPayment;
          monthlyPayment = calculateMonthlyPayment financedAmount interestRate termLength;
          annualPayment = monthlyPayment * 12;
          remainingBalance = financedAmount;
          cumulative = 0;
          downTax = downPayment * (taxRate / 100);
          downNet = downPayment - downTax;
          cumulative = cumulative + downNet;
          (remainingBalance, cumulative, cashFlow) =
            forYears
              (sellerFinancingYear interestRate taxRate downPayment annualPayment downTax downNet)
              paidOff 1 termLength (remainingBalance, cumulative, []);
          cashFlowValues = map netCashFlow cashFlow;
          npv = calculateNPV cashFlowValues 8;
          irr = calculateIRR
                  (- downPayment # butlast cashFlowValues @
                   [(if cashFlowValues = [] then NaN else last cashFlowValues) - downPayment])
      in \<lparr>totalInvestment = downPayment, netProceeds = cumulative,
           roi = ((cumulative - downPayment) / downPayment) * 100,
           irr = irr, cashFlow = cashFlow, npv = npv\<rparr>)"

subsection \<open>SBA 7(a) loan\<close>

fun sbaLoanYear ::
  "number \<Rightarrow> number \<Rightarrow> number \<Rightarrow> number \<Rightarrow> number \<Rightarrow> number \<Rightarrow> int \<Rightarrow>
   number \<times> number \<times> CashFlowRow list \<Rightarrow> number \<times> number \<times> CashFlowRow list" where
  "sbaLoanYear purchasePrice interestRate taxRate downPayment annualPayment downTax year
     (remainingBalance, cumulative, cashFlow) =
     (let interestPayment = remainingBalance * (interestRate / 100);
          principalPayment = Math_min (annualPayment - interestPayment) remainingBalance;
          equityGrowth = purchasePrice * 0.1;
          equityTax = equityGrowth * (taxRate / 100);
          netEquityGrowth = equityGrowth - equityTax;
          loanPaymentAfterTax = (principalPayment + interestPayment) * (1 - taxRate / 100);
          netYearlyReturn = netEquityGrowth - loanPaymentAfterTax;
          (cumulative, cashFlow) =
            (if year = 1 then
               let netYearlyReturn = netYearlyReturn - downPayment;
                   cumulative = netYearlyReturn
               in (cumulative,
                   cashFlow @
                     [\<lparr>year = year, principal = downPayment, interest = interestPayment,
                       equityReturns = netEquityGrowth,
                       preTaxTotal = downPayment + equityGrowth,
                       taxImpact = - (downTax + equityTax),
                       netCashFlow = netYearlyReturn, cumulative = cumulative\<rparr>])
             else
               let cumulative = cumulative + netYearlyReturn
               in (cumulative,
                   cashFlow @
                     [\<lparr>year = year, principal = principalPayment, interest = interestPayment,
                       equityReturns = netEquityGrowth,
                       preTaxTotal = principalPayment + interestPayment + equityGrowth,
                       taxImpact = - equityTax,
                       netCashFlow = netYearlyReturn, cumulative = cumulative\<rparr>]));
          remainingBalance = remainingBalance - principalPayment
      in (remainingBalance, cumulative, cashFlow))"
  for purchasePrice interestRate taxRate downPayment annualPayment downTax year
    remainingBalance cumulative cashFlow

definition calculateSBALoan :: "DealInputs \<Rightarrow> DealResults" where
  "calculateSBALoan inputs =
     (let purchasePrice = purchasePrice inputs;
          termLength = termLength inputs;
          interestRate = interestRate inputs;
          taxRate = taxRate inputs;
          downPayment = purchasePrice * 0.1;
          loanAmount = purchasePrice * 0.9;
          monthlyPayment = calculateMonthlyPayment loanAmount interestRate termLength;
          annualPayment = monthlyPayment * 12;
          remainingBalance = loanAmount;
          cumulative = 0;
          downTax = downPayment * (taxRate / 100);
          downNet = downPayment - downTax;
          (remainingBalance, cumulative, cashFlow) =
            forYears
              (sbaLoanYear purchasePrice interestRate taxRate downPayment annualPayment downTax)
              paidOff 1 termLength (remainingBalance, cumulative, []);
          cashFlowValues = map netCashFlow cashFlow;
          npv = calculateNPV cashFlowValues 8;
          irr = calculateIRR cashFlowValues
      in \<lparr>totalInvestment = downPayment, netProceeds = cumulative,
           roi = ((cumulative - downPayment) / downPayment) * 100,
           irr = irr, cashFlow = cashFlow, npv = npv\<rparr>)"

subsection \<open>Custom structure\<close>

fun customYear ::
  "int \<Rightarrow> number \<Rightarrow> number \<Rightarrow> number \<Rightarrow> number \<Rightarrow> number \<Rightarrow> number \<Rightarrow> number \<Rightarrow> int \<Rightarrow>
   number \<times> number \<times> CashFlowRow list \<Rightarrow> number \<times> number \<times> CashFlowRow list" where
  "customYear termLength interestRate taxRate initialPayment balloonAmount annualPayment
     initialTax initialNet year (remainingBalance, cumulative, cashFlow) =
     (let interestPayment = remainingBalance * (interestRate / 100);
          principalPayment = Math_min (annualPayment - interestPayment) remainingBalance;
          totalPayment = principalPayment + interestPayment;
          totalPayment =
            (if year = termLength \<and> balloonAmount > 0 then totalPayment + balloonAmount
             else totalPayment);
          paymentTax = totalPayment * (taxRate / 100);
          netPayment = totalPayment - paymentTax;
          (cumulative, cashFlow) =
            (if year = 1 then
               let totalYear1 = initialNet + netPayment;
                   cumulative = totalYear1
               in (cumulative,
                   cashFlow @
                     [\<lparr>year = year,
                       principal = initialPayment + principalPayment +
                         (if year = termLength then balloonAmount else 0),
                       interest = interestPayment, equityReturns = 0,
                       preTaxTotal = initialPayment + totalPayment,
                       taxImpact = - (initialTax + paymentTax),
                       netCashFlow = totalYear1, cumulative = cumulative\<rparr>])
             else
               let cumulative = cumulative + netPayment
               in (cumulative,
                   cashFlow @
                     [\<lparr>year = year,
                       principal = principalPayment +
                         (if year = termLength then balloonAmount else 0),
                       interest = interestPayment, equityReturns = 0,
                       preTaxTotal = totalPayment, taxImpact = - paymentTax,
                       netCashFlow = netPayment, cumulative = cumulative\<rparr>]));
          remainingBalance = remainingBalance - principalPayment
      in (remainingBalance, cumulative, cashFlow))"
  for termLength interestRate taxRate initialPayment balloonAmount annualPayment
    initialTax initialNet year remainingBalance cumulative cashFlow

text \<open>
  The two optional fields are destructured with the default 0; \<open>downPayment || \<dots>\<close> and
  \<open>balloonPayment || 0\<close> then take the right-hand side when the value is falsy.
\<close>

definition calculateCustom :: "DealInputs \<Rightarrow> DealResults" where
  "calculateCustom inputs =
     (let purchasePrice = purchasePrice inputs;
          termLength = termLength inputs;
          interestRate = interestRate inputs;
          taxRate = taxRate inputs;
          downPayment = (case downPayment inputs of None \<Rightarrow> 0 | Some v \<Rightarrow> v);
          balloonPayment = (case balloonPayment inputs of None \<Rightarrow> 0 | Some v \<Rightarrow> v);
          initialPayment = (if truthy downPayment then downPayment else purchasePrice * 0.25);
          financedAmount = purchasePrice - initialPayment;
          balloonAmount = (if truthy balloonPayment then balloonPayment else 0);
          regularFinancedAmount = financedAmount - balloonAmount;
          monthlyPayment = 0;
          monthlyPayment =
            (if regularFinancedAmount > 0
             then calculateMonthlyPayment regularFinancedAmount interestRate termLength
             else monthlyPayment);
          annualPayment = monthlyPayment * 12;
          remainingBalance = regularFinancedAmount;
          cumulative = 0;
          initialTax = initialPayment * (taxRate / 100);
          initialNet = initialPayment - initialTax;
          cumulative = cumulative + initialNet;
          (remainingBalance, cumulative, cashFlow) =
            forYears
              (customYear termLength interestRate taxRate initialPayment balloonAmount
                 annualPayment initialTax initialNet)
              paidOff 1 termLength (remainingBalance, cumulative, []);
          cashFlowValues = map netCashFlow cashFlow;
          npv = calculateNPV cashFlowValues 8;
          irr = calculateIRR (- initialPayment # drop 1 cashFlowValues)
      in \<lparr>totalInvestment = initialPayment, netProceeds = cumulative,
           roi = ((cumulative - initialPayment) / initialPayment) * 100,
           irr = irr, cashFlow = cashFlow, npv = npv\<rparr>)"

subsection \<open>Dispatch\<close>

text \<open>
  The \<open>default\<close> branch of the \<open>switch\<close> (all-cash) is unreachable for a tag of the closed
  type \<open>DealType\<close>.  Only the all-cash calculator contains an operation that can raise.
\<close>

definition calculateDealStructure :: "DealType \<Rightarrow> DealInputs \<Rightarrow> error + DealResults" where
  "calculateDealStructure dealType inputs =
     (case dealType of
        AllCash \<Rightarrow> calculateAllCash inputs
      | EarnOut \<Rightarrow> Inr (calculateEarnOut inputs)
      | SellerFinancing \<Rightarrow> Inr (calculateSellerFinancing inputs)
      | SBALoan \<Rightarrow> Inr (calculateSBALoan inputs)
      | Custom \<Rightarrow> Inr (calculateCustom inputs))"
  for dealType inputs

section \<open>Comparison mode (\<open>calculateDeals\<close> of the calculator page)\<close>

fun dealTypeColors :: "DealType \<Rightarrow> string" where
  "dealTypeColors AllCash = ''#3B82F6''"
| "dealTypeColors EarnOut = ''#10B981''"
| "dealTypeColors SellerFinancing = ''#F59E0B''"
| "dealTypeColors SBALoan = ''#8B5CF6''"
| "dealTypeColors Custom = ''#EF4444''"

fun dealTypeLabels :: "DealType \<Rightarrow> string" where
  "dealTypeLabels AllCash = ''All-Cash Offer''"
| "dealTypeLabels EarnOut = ''Earn-Out Structure''"
| "dealTypeLabels SellerFinancing = ''Seller Financing''"
| "dealTypeLabels SBALoan = ''SBA 7(a) Loan''"
| "dealTypeLabels Custom = ''Custom Structure''"

text \<open>
  What a run of \<open>calculateDeals\<close> leaves behind: the comparison set given to
  \<open>setComparisons\<close>, the toasts shown (title and description), and the busy flag.
\<close>

record Toast =
  title :: string
  description :: string

record CalculatorState =
  comparisons :: "ComparisonData list"
  toasts :: "Toast list"
  isCalculating :: bool

text \<open>
  The loop over the deal types, on \<open>newComparisons\<close> and the toasts so far.  The inner
  \<open>try\<close>/\<open>catch\<close> turns an exception of one calculator into an error toast and goes on
  with the next deal type.
\<close>

fun calculateDealsLoop ::
  "DealInputs \<Rightarrow> DealType list \<Rightarrow> ComparisonData list \<times> Toast list \<Rightarrow>
   ComparisonData list \<times> Toast list" where
  "calculateDealsLoop inputs [] (newComparisons, shown) = (newComparisons, shown)"
| "calculateDealsLoop inputs (dealType # dealTypes) (newComparisons, shown) =
     (case calculateDealStructure dealType inputs of
        Inr results \<Rightarrow>
          calculateDealsLoop inputs dealTypes
            (newComparisons @
               [\<lparr>dealType = dealType, label = dealTypeLabels dealType, results = results,
                 color = dealTypeColors dealType\<rparr>],
             shown)
      | Inl error \<Rightarrow>
          calculateDealsLoop inputs dealTypes
            (newComparisons,
             shown @
               [\<lparr>title = ''Calculation Error'',
                 description = ''Failed to calculate '' @ dealTypeLabels dealType @
                   ''. Please check your inputs.''\<rparr>]))"
  for inputs dealType dealTypes newComparisons shown results

definition calculateDeals :: "DealInputs \<Rightarrow> CalculatorState" where
  "calculateDeals inputs =
     (let dealTypes = [AllCash, EarnOut, SellerFinancing, SBALoan, Custom];
          (newComparisons, shown) = calculateDealsLoop inputs dealTypes ([], [])
      in \<lparr>comparisons = newComparisons,
           toasts = shown @
             [\<lparr>title = ''Calculations Complete'',
               description = ''All deal structures have been calculated successfully.''\<rparr>],
           isCalculating = False\<rparr>)"

section \<open>Preconditions of the data model\<close>

text \<open>
  The inputs the specification admits: a positive (finite) purchase price, a term of 1 to 30
  years, an interest rate between 0 and 50, a tax rate between 0 and 60, and optional down
  and balloon payments that are finite and not negative when present.
\<close>

definition valid_inputs :: "DealInputs \<Rightarrow> bool" where
  "valid_inputs inputs \<longleftrightarrow>
     fin (purchasePrice inputs) \<and> purchasePrice inputs > 0 \<and>
     1 \<le> termLength inputs \<and> termLength inputs \<le> 30 \<and>
     0 \<le> interestRate inputs \<and> interestRate inputs \<le> 50 \<and>
     0 \<le> taxRate inputs \<and> taxRate inputs \<le> 60 \<and>
     (case downPayment inputs of None \<Rightarrow> True | Some d \<Rightarrow> fin d \<and> 0 \<le> d) \<and>
     (case balloonPayment inputs of None \<Rightarrow> True | Some b \<Rightarrow> fin b \<and> 0 \<le> b)"

text \<open>
  The preconditions as the properties of the schedules list them: a purchase price above 0,
  a term of 1 to 30 years, an interest rate between 0 and 50 and a tax rate between 0 and 60.
  Nothing is asked of the optional fields, and \<open>Infinity\<close> is a price above 0.
\<close>

definition stated_preconditions :: "DealInputs \<Rightarrow> bool" where
  "stated_preconditions inputs \<longleftrightarrow>
     purchasePrice inputs > 0 \<and>
     1 \<le> termLength inputs \<and> termLength inputs \<le> 30 \<and>
     0 \<le> interestRate inputs \<and> interestRate inputs \<le> 50 \<and>
     0 \<le> taxRate inputs \<and> taxRate inputs \<le> 60"

text \<open>Equality of two numbers as the program tests it (\<open>===\<close>): \<open>NaN\<close> is equal to nothing.\<close>

definition strictly_equal :: "number \<Rightarrow> number \<Rightarrow> bool" where
  "strictly_equal x y \<longleftrightarrow> x \<noteq> NaN \<and> y \<noteq> NaN \<and> x = y"



text \<open>A row whose net cash flow is its pre-tax total plus its (negative) tax impact.\<close>

definition row_reconciles :: "CashFlowRow \<Rightarrow> bool" where
  "row_reconciles row \<longleftrightarrow> netCashFlow row = preTaxTotal row + taxImpact row"

text \<open>
  The rows whose net cash flow is computed as a single difference, the payment of the year
  minus the tax on it: every row of the all-cash and earn-out structures, and the rows after
  year 1 of seller financing and of the custom structure.  (The year-1 rows of these two add
  the net down payment and the net payment of the year, each a difference of its own; the rows
  of the SBA loan report the buyer's return.)
\<close>

definition single_payment_row :: "DealType \<Rightarrow> CashFlowRow \<Rightarrow> bool" where
  "single_payment_row dt row \<longleftrightarrow>
     dt = AllCash \<or> dt = EarnOut \<or> ((dt = SellerFinancing \<or> dt = Custom) \<and> year row \<noteq> 1)"

text \<open>
  A schedule whose rows are numbered by year from 1, all satisfy \<open>P\<close>, and carry the running
  sum of the net cash flows in \<open>cumulative\<close>.
\<close>

definition schedule_ok :: "(CashFlowRow \<Rightarrow> bool) \<Rightarrow> CashFlowRow list \<Rightarrow> bool" where
  "schedule_ok P rows \<longleftrightarrow>
     (\<forall>k<length rows.
        P (rows ! k) \<and> year (rows ! k) = int k + 1 \<and>
        (if k = 0 then cumulative (rows ! k) = netCashFlow (rows ! k)
         else cumulative (rows ! k) = cumulative (rows ! (k - 1)) + netCashFlow (rows ! k)))"

text \<open>
  The invariant of the schedule loops before the iteration of year \<open>y\<close>: the rows so far are
  those of the years before \<open>y\<close>, and the variable \<open>cumulative\<close> is, once there is a row,
  equal to the last row's \<open>cumulative\<close>.
\<close>

definition running :: "(CashFlowRow \<Rightarrow> bool) \<Rightarrow> int \<Rightarrow> number \<Rightarrow> CashFlowRow list \<Rightarrow> bool" where
  "running P y cum rows \<longleftrightarrow>
     y = int (length rows) + 1 \<and>
     (rows \<noteq> [] \<longrightarrow> cum = cumulative (last rows)) \<and> schedule_ok P rows"

text \<open>
  The net present value in the words of the specification: the sum of \<open>CF\<^sub>t / (1 + r)\<^sup>t\<close> for
  \<open>t = 1..N\<close>, on finite flows and with the discount rate \<open>r\<close> as a fraction.
\<close>

definition npv_formula :: "real list \<Rightarrow> real \<Rightarrow> real" where
  "npv_formula flows r = (\<Sum>t = 1..length flows. flows ! (t - 1) / (1 + r) ^ t)"

text \<open>The inputs the calculator page starts with.\<close>

definition initial_inputs :: DealInputs where
  "initial_inputs =
     \<lparr>purchasePrice = 500000, termLength = 5, interestRate = 5.5, taxRate = 25,
      equityRetained = 0, downPayment = None, balloonPayment = None\<rparr>"

section \<open>The schedule loops on their own\<close>

text \<open>
  The variables \<open>(remainingBalance, cumulative, cashFlow)\<close> (for earn-out:
  \<open>(cumulative, cashFlow)\<close>) at the end of each calculator's loop, with the constants
  computed as the calculator computes them.  The calculators above do not use these
  definitions; the lemmas \<open>cashFlow_calculate\<dots>\<close> below show that they agree.
\<close>

definition earnOutLoop :: "DealInputs \<Rightarrow> number \<times> CashFlowRow list" where
  "earnOutLoop inputs =
     (let purchasePrice = purchasePrice inputs;
          termLength = termLength inputs;
          taxRate = taxRate inputs;
          upfrontPayment = purchasePrice * 0.6;
          earnOutAmount = purchasePrice * 0.4;
          annualEarnOut = earnOutAmount / number_of_int (termLength - 1);
          cumulative = 0;
          year1Tax = upfrontPayment * (taxRate / 100);
          year1Net = upfrontPayment - year1Tax;
          cumulative = cumulative + year1Net;
          cashFlow =
            [\<lparr>year = 1, principal = upfrontPayment, interest = 0, equityReturns = 0,
              preTaxTotal = upfrontPayment, taxImpact = - year1Tax,
              netCashFlow = year1Net, cumulative = cumulative\<rparr>]
      in forYears (earnOutYear taxRate annualEarnOut) (\<lambda>s. False) 2 termLength
           (cumulative, cashFlow))"

definition sellerFinancingLoop :: "DealInputs \<Rightarrow> number \<times> number \<times> CashFlowRow list" where
  "sellerFinancingLoop inputs =
     (let purchasePrice = purchasePrice inputs;
          termLength = termLength inputs;
          interestRate = interestRate inputs;
          taxRate = taxRate inputs;
          downPayment = purchasePrice * 0.2;
          financedAmount = purchasePrice - downPayment;
          monthlyPayment = calculateMonthlyPayment financedAmount interestRate termLength;
          annualPayment = monthlyPayment * 12;
          remainingBalance = financedAmount;
          cumulative = 0;
          downTax = downPayment * (taxRate / 100);
          downNet = downPayment - downTax;
          cumulative = cumulative + downNet
      in forYears
           (sellerFinancingYear interestRate taxRate downPayment annualPayment downTax downNet)
           paidOff 1 termLength (remainingBalance, cumulative, []))"

definition sbaLoanLoop :: "DealInputs \<Rightarrow> number \<times> number \<times> CashFlowRow list" where
  "sbaLoanLoop inputs =
     (let purchasePrice = purchasePrice inputs;
          termLength = termLength inputs;
          interestRate = interestRate inputs;
          taxRate = taxRate inputs;
          downPayment = purchasePrice * 0.1;
          loanAmount = purchasePrice * 0.9;
          monthlyPayment = calculateMonthlyPayment loanAmount interestRate termLength;
          annualPayment = monthlyPayment * 12;
          remainingBalance = loanAmount;
          cumulative = 0;
          downTax = downPayment * (taxRate / 100)
      in forYears
           (sbaLoanYear purchasePrice interestRate taxRate downPayment annualPayment downTax)
           paidOff 1 termLength (remainingBalance, cumulative, []))"

text \<open>
  For the custom structure the loop is given in two steps: \<open>customLoopFrom\<close> is the loop for
  a given \<open>initialPayment\<close>, and \<open>customLoop\<close> chooses the initial payment as the calculator does.
\<close>

definition customLoopFrom :: "number \<Rightarrow> DealInputs \<Rightarrow> number \<times> number \<times> CashFlowRow list" where
  "customLoopFrom initialPayment inputs =
     (let purchasePrice = purchasePrice inputs;
          termLength = termLength inputs;
          interestRate = interestRate inputs;
          taxRate = taxRate inputs;
          balloonPayment = (case balloonPayment inputs of None \<Rightarrow> 0 | Some v \<Rightarrow> v);
          financedAmount = purchasePrice - initialPayment;
          balloonAmount = (if truthy balloonPayment then balloonPayment else 0);
          regularFinancedAmount = financedAmount - balloonAmount;
          monthlyPayment = 0;
          monthlyPayment =
            (if regularFinancedAmount > 0
             then calculateMonthlyPayment regularFinancedAmount interestRate termLength
             else monthlyPayment);
          annualPayment = monthlyPayment * 12;
          remainingBalance = regularFinancedAmount;
          cumulative = 0;
          initialTax = initialPayment * (taxRate / 100);
          initialNet = initialPayment - initialTax;
          cumulative = cumulative + initialNet
      in forYears
           (customYear termLength interestRate taxRate initialPayment balloonAmount
              annualPayment initialTax initialNet)
           paidOff 1 termLength (remainingBalance, cumulative, []))"

definition customLoop :: "DealInputs \<Rightarrow> number \<times> number \<times> CashFlowRow list" where
  "customLoop inputs =
     (let purchasePrice = purchasePrice inputs;
          downPayment = (case downPayment inputs of None \<Rightarrow> 0 | Some v \<Rightarrow> v);
          initialPayment = (if truthy downPayment then downPayment else purchasePrice * 0.25)
      in customLoopFrom initialPayment inputs)"

section \<open>Arithmetic on finite numbers\<close>

lemma number_numeral [simp]: "(numeral k :: number) = Fin (numeral k)"
proof (induction k)
  case One
  show ?case by (simp add: one_number_def)
next
  case (Bit0 k)
  have "(numeral (Num.Bit0 k) :: number) = numeral k + numeral k"
    by (rule numeral_Bit0)
  also have "\<dots> = Fin (numeral k + numeral k)"
    by (simp only: Bit0 plus_number.simps)
  also have "\<dots> = Fin (numeral (Num.Bit0 k))"
    by (simp only: numeral_Bit0)
  finally show ?case .
next
  case (Bit1 k)
  have "(numeral (Num.Bit1 k) :: number) = numeral k + numeral k + 1"
    by (rule numeral_Bit1)
  also have "\<dots> = Fin (numeral k + numeral k + 1)"
    by (simp only: Bit1 plus_number.simps one_number_def)
  also have "\<dots> = Fin (numeral (Num.Bit1 k))"
    by (simp only: numeral_Bit1)
  finally show ?case .
qed

lemmas number_consts [simp] = zero_number_def one_number_def

lemma Fin_minus [simp]: "Fin a - Fin b = Fin (a - b)"
  by (simp add: minus_number_def)

lemma Fin_power [simp]: "Fin a ^ n = Fin (a ^ n)"
  by (induction n) simp_all

lemma fin_iff: "fin x \<longleftrightarrow> (\<exists>a. x = Fin a)"
  by (cases x) simp_all

lemma Math_min_Fin [simp]: "Math_min (Fin a) (Fin b) = Fin (min a b)"
  by (simp add: Math_min_def min_def)

lemma Math_pow_Fin [simp]: "0 \<le> n \<Longrightarrow> Math_pow (Fin a) n = Fin (a ^ nat n)"
  by (simp add: Math_pow_def)

section \<open>The loop rule\<close>

text \<open>
  An invariant \<open>I\<close> that holds before the loop and is kept by the body holds of the state the
  loop ends in, for the year at which it ends: past the bound, or at the \<open>break\<close>.
\<close>

lemma forYears_exit:
  assumes "I y s"
    and "\<And>year s. y \<le> year \<Longrightarrow> year \<le> t \<Longrightarrow> I year s \<Longrightarrow> I (year + 1) (body year s)"
    and "\<And>year s. I year s \<Longrightarrow> t < year \<or> stop s \<Longrightarrow> Q s"
  shows "Q (forYears body stop y t s)"
  using assms
proof (induction body stop y t s rule: forYears.induct)
  case (1 body stop year termLength s)
  show ?case
  proof (cases "year \<le> termLength")
    case False
    then show ?thesis using "1.prems"(1,3) by (simp add: forYears.simps)
  next
    case True
    have I': "I (year + 1) (body year s)" using "1.prems"(1,2) True by simp
    show ?thesis
    proof (cases "stop (body year s)")
      case True
      then show ?thesis using \<open>year \<le> termLength\<close> I' "1.prems"(3)
        by (subst forYears.simps) (simp add: Let_def)
    next
      case False
      have "Q (forYears body stop (year + 1) termLength (body year s))"
        using "1.IH"[OF True refl False I'] "1.prems"(2,3) by simp
      then show ?thesis using True False
        by (subst forYears.simps) (simp add: Let_def)
    qed
  qed
qed

lemma forYears_rule:
  assumes "I y s"
    and "\<And>year s. y \<le> year \<Longrightarrow> year \<le> t \<Longrightarrow> I year s \<Longrightarrow> I (year + 1) (body year s)"
    and "\<And>year s. I year s \<Longrightarrow> Q s"
  shows "Q (forYears body stop y t s)"
  by (rule forYears_exit [where I = I and Q = Q]) (use assms in blast)+

text \<open>When the loop runs at least once, the invariant holds at the end for a later year.\<close>

lemma forYears_ran:
  assumes "y \<le> t" and "I y s"
    and step: "\<And>year s. y \<le> year \<Longrightarrow> year \<le> t \<Longrightarrow> I year s \<Longrightarrow> I (year + 1) (body year s)"
    and final: "\<And>year s. y < year \<Longrightarrow> I year s \<Longrightarrow> Q s"
  shows "Q (forYears body stop y t s)"
proof -
  let ?J = "\<lambda>year s. y < year \<and> I year s"
  have J: "?J (y + 1) (body y s)" using assms(1,2) step by simp
  show ?thesis
  proof (cases "stop (body y s)")
    case True
    then show ?thesis using assms(1) J final [of "y + 1" "body y s"]
      by (subst forYears.simps) (simp add: Let_def)
  next
    case False
    have "Q (forYears body stop (y + 1) t (body y s))"
    proof (rule forYears_rule [where I = ?J])
      show "?J (y + 1) (body y s)" by (rule J)
    next
      fix year s assume "y + 1 \<le> year" "year \<le> t" "?J year s"
      then show "?J (year + 1) (body year s)" using step [of year s] by simp
    next
      fix year s assume "?J year s"
      then show "Q s" using final by blast
    qed
    then show ?thesis using assms(1) False
      by (subst forYears.simps) (simp add: Let_def)
  qed
qed

section \<open>The calculators and their loops\<close>

text \<open>The fields of the results in terms of the loops, without running them.\<close>

lemma cashFlow_calculateEarnOut: "cashFlow (calculateEarnOut i) = snd (earnOutLoop i)"
  by (simp add: calculateEarnOut_def earnOutLoop_def Let_def split_def)
lemma cashFlow_calculateSellerFinancing:
  "cashFlow (calculateSellerFinancing i) = snd (snd (sellerFinancingLoop i))"
  by (simp add: calculateSellerFinancing_def sellerFinancingLoop_def Let_def split_def)
lemma cashFlow_calculateSBALoan:
  "cashFlow (calculateSBALoan i) = snd (snd (sbaLoanLoop i))"
  by (simp add: calculateSBALoan_def sbaLoanLoop_def Let_def split_def)
lemma cashFlow_calculateCustom:
  "cashFlow (calculateCustom i) = snd (snd (customLoop i))"
  by (simp add: calculateCustom_def customLoop_def customLoopFrom_def Let_def split_def)

lemma totalInvestment_calculateCustom:
  "totalInvestment (calculateCustom i) =
     (let downPayment = (case downPayment i of None \<Rightarrow> 0 | Some v \<Rightarrow> v)
      in if truthy downPayment then downPayment else purchasePrice i * 0.25)"
  by (simp add: calculateCustom_def Let_def split_def)

text \<open>Valid inputs carry finite numbers.\<close>

lemma valid_inputsD:
  assumes "valid_inputs i"
  obtains p r t where "purchasePrice i = Fin p" "0 < p" "interestRate i = Fin r" "0 \<le> r" "r \<le> 50"
    "taxRate i = Fin t" "0 \<le> t" "t \<le> 60" "1 \<le> termLength i" "termLength i \<le> 30"
proof -
  from assms obtain p where p: "purchasePrice i = Fin p" by (auto simp: valid_inputs_def fin_iff)
  from assms have "0 \<le> interestRate i" "interestRate i \<le> 50" "0 \<le> taxRate i" "taxRate i \<le> 60"
    by (auto simp: valid_inputs_def)
  then obtain r t where "interestRate i = Fin r" "taxRate i = Fin t"
    by (cases "interestRate i"; cases "taxRate i") auto
  with assms p that show thesis by (auto simp: valid_inputs_def)
qed

section \<open>All-cash fixed point\<close>

text \<open>
  Claim C4.  For a purchase price of 500000, a term of 5 years and a tax rate of 25 (whatever
  the other fields), the all-cash calculator returns normally, with a total investment of
  500000, net proceeds of 375000, an ROI of -25 and an IRR of 0.
\<close>

theorem all_cash_fixed_point:
  "\<exists>r. calculateAllCash (inputs\<lparr>purchasePrice := 500000, termLength := 5, taxRate := 25\<rparr>) = Inr r
     \<and> totalInvestment r = 500000 \<and> netProceeds r = 375000 \<and> roi r = - 25 \<and> irr r = 0"
  by (simp add: calculateAllCash_def Let_def validArrayLength_def)

section \<open>Total investment\<close>

text \<open>
  For every deal type and all valid inputs with a purchase price of at least 1, the calculator
  returns normally, and the total investment it returns is finite and strictly positive.  The
  total investment is the denominator of the ROI in every calculator.  The bound on the price
  keeps its products with the ratios 0.1, 0.2, 0.25 and 0.6 away from the smallest magnitudes
  of double arithmetic, where such a product rounds to 0; the numbers of this development are
  exact and do not show that rounding.
\<close>

lemma totalInvestment_positive_above_one:
  assumes "valid_inputs inputs" and "1 \<le> purchasePrice inputs"
  shows "\<exists>r. calculateDealStructure dt inputs = Inr r \<and> fin (totalInvestment r) \<and> totalInvestment r > 0"
proof -
  from assms(1) obtain p where p: "purchasePrice inputs = Fin p" "0 < p" and T: "1 \<le> termLength inputs" "termLength inputs \<le> 30"
    by (rule valid_inputsD)
  show ?thesis
  proof (cases dt)
    case AllCash
    then show ?thesis using p T
      by (simp add: calculateDealStructure_def calculateAllCash_def Let_def validArrayLength_def)
  next
    case EarnOut
    then show ?thesis using p
      by (simp add: calculateDealStructure_def calculateEarnOut_def Let_def split_def)
  next
    case SellerFinancing
    then show ?thesis using p
      by (simp add: calculateDealStructure_def calculateSellerFinancing_def Let_def split_def)
  next
    case SBALoan
    then show ?thesis using p
      by (simp add: calculateDealStructure_def calculateSBALoan_def Let_def split_def)
  next
    case Custom
    have "fin (totalInvestment (calculateCustom inputs)) \<and> totalInvestment (calculateCustom inputs) > 0"
    proof (cases "downPayment inputs")
      case None
      then show ?thesis using p by (simp add: totalInvestment_calculateCustom truthy_def)
    next
      case (Some d)
      with assms(1) obtain a where "d = Fin a" "0 \<le> a" by (auto simp: valid_inputs_def fin_iff)
      then show ?thesis using p Some by (simp add: totalInvestment_calculateCustom truthy_def)
    qed
    then show ?thesis using Custom by (simp add: calculateDealStructure_def)
  qed
qed

section \<open>The down payment of the custom structure\<close>






section \<open>Batch isolation\<close>

text \<open>The comparison set: one entry, in order, for each deal type whose calculator returned.\<close>

lemma calculateDealsLoop_comparisons:
  "fst (calculateDealsLoop i dts (cs, ts)) =
     cs @ concat (map (\<lambda>dt. case calculateDealStructure dt i of
                              Inr r \<Rightarrow> [\<lparr>dealType = dt, label = dealTypeLabels dt, results = r,
                                         color = dealTypeColors dt\<rparr>]
                            | Inl e \<Rightarrow> []) dts)"
  by (induction dts arbitrary: cs ts) (auto split: sum.splits)

lemma comparisons_calculateDeals:
  "comparisons (calculateDeals i) =
     concat (map (\<lambda>dt. case calculateDealStructure dt i of
                         Inr r \<Rightarrow> [\<lparr>dealType = dt, label = dealTypeLabels dt, results = r,
                                    color = dealTypeColors dt\<rparr>]
                       | Inl e \<Rightarrow> []) [AllCash, EarnOut, SellerFinancing, SBALoan, Custom])"
proof -
  have "comparisons (calculateDeals i) =
          fst (calculateDealsLoop i [AllCash, EarnOut, SellerFinancing, SBALoan, Custom] ([], []))"
    by (simp add: calculateDeals_def Let_def split_def del: calculateDealsLoop.simps)
  then show ?thesis by (simp only: calculateDealsLoop_comparisons append_Nil)
qed

lemma all_dealTypes: "dt \<in> set [AllCash, EarnOut, SellerFinancing, SBALoan, Custom]"
  by (cases dt) simp_all

lemma in_concat_map: "d \<in> set ds \<Longrightarrow> x \<in> set (f d) \<Longrightarrow> x \<in> set (concat (map f ds))"
  by auto

text \<open>
  Claim C5.  In comparison mode, for every deal type: if its calculator returns a result, the
  entry with that result is in the comparison set, whatever the other calculators did; if its
  calculator raises, the comparison set has no entry for that deal type.  (\<open>calculateDeals\<close>
  itself always returns a state: the exception does not leave the batch.)
\<close>

theorem batch_isolation:
  "(calculateDealStructure dt inputs = Inr r \<longrightarrow>
      \<lparr>dealType = dt, label = dealTypeLabels dt, results = r, color = dealTypeColors dt\<rparr>
        \<in> set (comparisons (calculateDeals inputs))) \<and>
   (calculateDealStructure dt inputs = Inl e \<longrightarrow>
      dt \<notin> dealType ` set (comparisons (calculateDeals inputs)))"
proof (intro conjI impI)
  assume ok: "calculateDealStructure dt inputs = Inr r"
  show "\<lparr>dealType = dt, label = dealTypeLabels dt, results = r, color = dealTypeColors dt\<rparr>
          \<in> set (comparisons (calculateDeals inputs))"
    unfolding comparisons_calculateDeals
    by (rule in_concat_map [OF all_dealTypes [of dt]]) (simp add: ok)
next
  assume bad: "calculateDealStructure dt inputs = Inl e"
  show "dt \<notin> dealType ` set (comparisons (calculateDeals inputs))"
  proof
    assume "dt \<in> dealType ` set (comparisons (calculateDeals inputs))"
    then obtain c d where d: "d \<in> set [AllCash, EarnOut, SellerFinancing, SBALoan, Custom]"
      and c: "c \<in> set (case calculateDealStructure d inputs of
                Inr r \<Rightarrow> [\<lparr>dealType = d, label = dealTypeLabels d, results = r,
                           color = dealTypeColors d\<rparr>]
              | Inl e \<Rightarrow> [])" and "dealType c = dt"
      unfolding comparisons_calculateDeals set_concat set_map by blast
    from c obtain r' where r': "calculateDealStructure d inputs = Inr r'"
      and "c = \<lparr>dealType = d, label = dealTypeLabels d, results = r', color = dealTypeColors d\<rparr>"
      by (cases "calculateDealStructure d inputs") simp_all
    with \<open>dealType c = dt\<close> have "d = dt" by simp
    with bad r' show False by simp
  qed
qed

theorem batch_isolation_witness:
  "calculateDealStructure AllCash (initial_inputs\<lparr>termLength := 0\<rparr>) = Inl RangeError \<and>
   AllCash \<notin> dealType ` set (comparisons (calculateDeals (initial_inputs\<lparr>termLength := 0\<rparr>))) \<and>
   \<lparr>dealType = Custom, label = dealTypeLabels Custom,
     results = calculateCustom (initial_inputs\<lparr>termLength := 0\<rparr>),
     color = dealTypeColors Custom\<rparr>
     \<in> set (comparisons (calculateDeals (initial_inputs\<lparr>termLength := 0\<rparr>)))"
proof -
  have bad: "calculateDealStructure AllCash (initial_inputs\<lparr>termLength := 0\<rparr>) = Inl RangeError"
    by (simp add: calculateDealStructure_def calculateAllCash_def initial_inputs_def Let_def
          validArrayLength_def)
  have ok: "calculateDealStructure Custom (initial_inputs\<lparr>termLength := 0\<rparr>) =
              Inr (calculateCustom (initial_inputs\<lparr>termLength := 0\<rparr>))"
    by (simp add: calculateDealStructure_def)
  show ?thesis
    using bad ok
      batch_isolation [of AllCash "initial_inputs\<lparr>termLength := 0\<rparr>" undefined RangeError]
      batch_isolation [of Custom "initial_inputs\<lparr>termLength := 0\<rparr>"
        "calculateCustom (initial_inputs\<lparr>termLength := 0\<rparr>)" RangeError]
    by simp
qed

section \<open>Net present value\<close>

text \<open>
  Claim C2 holds of four calculators by construction: they discount the net cash flows of their
  own rows.
\<close>

lemma npv_calculateEarnOut:
  "npv (calculateEarnOut i) = calculateNPV (map netCashFlow (cashFlow (calculateEarnOut i))) 8"
  by (simp add: calculateEarnOut_def Let_def split_def)

lemma npv_calculateSellerFinancing:
  "npv (calculateSellerFinancing i) =
     calculateNPV (map netCashFlow (cashFlow (calculateSellerFinancing i))) 8"
  by (simp add: calculateSellerFinancing_def Let_def split_def)

lemma npv_calculateSBALoan:
  "npv (calculateSBALoan i) = calculateNPV (map netCashFlow (cashFlow (calculateSBALoan i))) 8"
  by (simp add: calculateSBALoan_def Let_def split_def)

lemma npv_calculateCustom:
  "npv (calculateCustom i) = calculateNPV (map netCashFlow (cashFlow (calculateCustom i))) 8"
  by (simp add: calculateCustom_def Let_def split_def)

text \<open>
  On finite flows \<open>calculateNPV\<close> computes the formula of the specification, for a rate in
  percent.
\<close>

lemma Math_pow_index: "Math_pow (Fin a) (int n + 1) = Fin (a ^ (n + 1))"
proof -
  have "nat (int n + 1) = n + 1" by simp
  then show ?thesis by (simp add: Math_pow_def del: power_Suc)
qed

lemma npv_foldl:
  assumes "1 + d / 100 \<noteq> 0"
  shows "foldl (\<lambda>npv (year, cashFlow). npv + cashFlow / Math_pow (1 + Fin d / 100) (int year + 1))
           (Fin acc) (enumerate n (map Fin flows)) =
         Fin (acc + (\<Sum>k<length flows. flows ! k / (1 + d / 100) ^ (n + k + 1)))"
proof (induction flows arbitrary: acc n)
  case Nil
  show ?case by simp
next
  case (Cons c flows)
  have nz: "(1 + d / 100) ^ (n + 1) \<noteq> 0" using assms by simp
  have base: "1 + Fin d / 100 = Fin (1 + d / 100)" by simp
  have step: "Fin acc + Fin c / Math_pow (1 + Fin d / 100) (int n + 1) =
              Fin (acc + c / (1 + d / 100) ^ (n + 1))"
    unfolding base Math_pow_index using nz by simp
  have sum: "(\<Sum>k<length (c # flows). (c # flows) ! k / (1 + d / 100) ^ (n + k + 1)) =
        c / (1 + d / 100) ^ (n + 1) + (\<Sum>k<length flows. flows ! k / (1 + d / 100) ^ (Suc n + k + 1))"
  proof -
    have "(\<Sum>k<Suc (length flows). (c # flows) ! k / (1 + d / 100) ^ (n + k + 1)) =
          (c # flows) ! 0 / (1 + d / 100) ^ (n + 0 + 1) +
          (\<Sum>k<length flows. (c # flows) ! Suc k / (1 + d / 100) ^ (n + Suc k + 1))"
      by (rule sum.lessThan_Suc_shift)
    then show ?thesis by (simp del: power_Suc sum.lessThan_Suc)
  qed
  have "foldl (\<lambda>npv (year, cashFlow). npv + cashFlow / Math_pow (1 + Fin d / 100) (int year + 1))
           (Fin acc) (enumerate n (map Fin (c # flows))) =
        foldl (\<lambda>npv (year, cashFlow). npv + cashFlow / Math_pow (1 + Fin d / 100) (int year + 1))
           (Fin (acc + c / (1 + d / 100) ^ (n + 1))) (enumerate (Suc n) (map Fin flows))"
    using step by simp
  also have "\<dots> = Fin (acc + c / (1 + d / 100) ^ (n + 1) +
               (\<Sum>k<length flows. flows ! k / (1 + d / 100) ^ (Suc n + k + 1)))"
    by (rule Cons.IH)
  finally show ?case unfolding sum by (simp only: add.assoc)
qed

lemma calculateNPV_formula:
  assumes "1 + d / 100 \<noteq> 0"
  shows "calculateNPV (map Fin flows) (Fin d) = Fin (npv_formula flows (d / 100))"
proof -
  have "(\<Sum>t = 1..length flows. flows ! (t - 1) / (1 + d / 100) ^ t) =
        (\<Sum>k<length flows. flows ! k / (1 + d / 100) ^ (k + 1))"
    by (rule sum.reindex_bij_witness [where i = "\<lambda>k. k + 1" and j = "\<lambda>t. t - 1"]) auto
  moreover have "calculateNPV (map Fin flows) (Fin d) =
      Fin (0 + (\<Sum>k<length flows. flows ! k / (1 + d / 100) ^ (0 + k + 1)))"
    unfolding calculateNPV_def zero_number_def by (rule npv_foldl [OF assms])
  ultimately show ?thesis by (simp add: npv_formula_def del: power_Suc)
qed

text \<open>
  Claim C2 at the initial inputs of the page, for the all-cash calculator: the \<open>npv\<close> field is
  the discounted gross price, \<open>500000 / 1.08\<close>, while the net cash flows of the rows are 375000
  in year 1 and 0 afterwards, with a net present value at 8% of \<open>375000 / 1.08\<close>.
\<close>

theorem all_cash_npv_failing_input:
  "\<exists>r. calculateDealStructure AllCash initial_inputs = Inr r \<and>
       npv r = Fin (12500000 / 27) \<and>
       map netCashFlow (cashFlow r) = map Fin [375000, 0, 0, 0, 0] \<and>
       npv_formula [375000, 0, 0, 0, 0] (8 / 100) = 9375000 / 27"
proof -
  have "calculateNPV (map Fin [375000, 0, 0, 0, 0]) (Fin 8) = Fin (9375000 / 27)"
    by (simp add: calculateNPV_def enumerate_eq_zip eval_nat_numeral)
  then have "npv_formula [375000, 0, 0, 0, 0] (8 / 100) = 9375000 / 27"
    using calculateNPV_formula [of 8 "[375000, 0, 0, 0, 0]"] by simp
  then show ?thesis
    by (simp add: calculateDealStructure_def calculateAllCash_def initial_inputs_def Let_def
          validArrayLength_def forYears.simps allCashYear_def calculateNPV_def enumerate_eq_zip
          eval_nat_numeral)
qed

section \<open>The balloon payment\<close>

text \<open>
  Claim C8 at a down payment of 100000 and a balloon payment of 400000 on the initial inputs
  (price 500000, 5 years): nothing is left to amortize, the loop stops after year 1, and the
  only row of the schedule has the down payment as its principal.  The balloon is added to
  no row.
\<close>

theorem balloon_failing_input:
  "valid_inputs (initial_inputs\<lparr>downPayment := Some 100000, balloonPayment := Some 400000\<rparr>) \<and>
   cashFlow (calculateCustom
     (initial_inputs\<lparr>downPayment := Some 100000, balloonPayment := Some 400000\<rparr>)) =
     [\<lparr>year = 1, principal = 100000, interest = 0, equityReturns = 0, preTaxTotal = 100000,
       taxImpact = - 25000, netCashFlow = 75000, cumulative = 75000\<rparr>]"
  by (simp add: valid_inputs_def initial_inputs_def cashFlow_calculateCustom customLoop_def
        customLoopFrom_def truthy_def Let_def forYears.simps)

section \<open>Amortization\<close>

text \<open>
  At zero interest the seller-financing schedule does retire the loan: it runs the full term
  and ends with a balance of 0.
\<close>

lemma sellerFinancing_zero_interest:
  assumes "valid_inputs i" and "interestRate i = 0"
  shows "fst (sellerFinancingLoop i) = 0 \<and>
         length (snd (snd (sellerFinancingLoop i))) = nat (termLength i)"
proof -
  from assms(1) obtain p r t where v: "purchasePrice i = Fin p" "0 < p" "taxRate i = Fin t"
    "1 \<le> termLength i"
    by (rule valid_inputsD)
  define T where "T = termLength i"
  define f where "f = p - p * (2 / 10)"
  have T: "1 \<le> T" using v by (simp add: T_def)
  have f: "0 < f" using v by (simp add: f_def)
  let ?I = "\<lambda>y s. case s of (rb, cum, rows) \<Rightarrow>
      1 \<le> y \<and> y \<le> T + 1 \<and> rb = Fin (f * of_int (T - y + 1) / of_int T) \<and>
      int (length rows) = y - 1 \<and> fin cum"
  define dp where "dp = Fin (p * (2 / 10))"
  define dtx where "dtx = Fin (p * (2 / 10) * (t / 100))"
  have loop: "sellerFinancingLoop i =
      forYears (sellerFinancingYear (Fin 0) (Fin t) dp (Fin (f / of_int T)) dtx (dp - dtx)) paidOff 1
        T (Fin f, 0 + (dp - dtx), [])"
    using v assms(2) T
    by (simp add: sellerFinancingLoop_def Let_def dp_def dtx_def f_def T_def
          calculateMonthlyPayment_def number_of_int_def)
  show ?thesis unfolding loop T_def [symmetric]
  proof (rule forYears_exit [where I = ?I])
    show "?I 1 (Fin f, 0 + (dp - dtx), [])"
      using T by (simp add: dp_def dtx_def)
  next
    fix year and s :: "number \<times> number \<times> CashFlowRow list"
    assume year: "1 \<le> year" "year \<le> T" and I: "?I year s"
    obtain rb cum rows where s: "s = (rb, cum, rows)" by (cases s)
    with I obtain c where rb: "rb = Fin (f * of_int (T - year + 1) / of_int T)"
      and len: "int (length rows) = year - 1" and c: "cum = Fin c"
      by (auto simp: fin_iff)
    have "f / of_int T \<le> f * of_int (T - year + 1) / of_int T"
      using f T year by (simp add: divide_le_cancel mult_le_cancel_left_pos)
    then have m: "min (f / of_int T) (f * of_int (T - year + 1) / of_int T) = f / of_int T"
      by simp
    have "f * of_int (T - year + 1) - f = f * of_int (T - (year + 1) + 1)"
      by (simp add: algebra_simps)
    then have "f * of_int (T - year + 1) / of_int T - f / of_int T =
               f * of_int (T - (year + 1) + 1) / of_int T"
      by (simp only: diff_divide_distrib [symmetric])
    then show "?I (year + 1) (sellerFinancingYear (Fin 0) (Fin t) dp (Fin (f / of_int T)) dtx (dp - dtx) year s)"
      using year len m by (auto simp: s rb c dp_def dtx_def Let_def)
  next
    fix year and s :: "number \<times> number \<times> CashFlowRow list"
    assume I: "?I year s" and exit: "T < year \<or> paidOff s"
    obtain rb cum rows where s: "s = (rb, cum, rows)" by (cases s)
    with I have y: "1 \<le> year" "year \<le> T + 1" and rb: "rb = Fin (f * of_int (T - year + 1) / of_int T)"
      and len: "int (length rows) = year - 1"
      by auto
    have "year = T + 1"
    proof (rule ccontr)
      assume "year \<noteq> T + 1"
      with y have "year \<le> T" by simp
      then have "0 < f * of_int (T - year + 1) / of_int T" using f T by simp
      with exit \<open>year \<le> T\<close> show False by (simp add: s rb)
    qed
    then show "fst s = 0 \<and> length (snd (snd s)) = nat T"
      using len by (simp add: s rb)
  qed
qed

text \<open>
  Claim C7 at a one-year term and 12% interest on the initial inputs (price 500000, so 100000
  down and 400000 financed), for seller financing: the schedule runs its full term of one
  year, the balance left after it is more than 21525, and the principal column sums to less
  than 478475, of which 100000 is the down payment.
\<close>

theorem amortization_failing_input:
  "valid_inputs (initial_inputs\<lparr>termLength := 1, interestRate := 12\<rparr>) \<and>
   map year (cashFlow (calculateSellerFinancing
     (initial_inputs\<lparr>termLength := 1, interestRate := 12\<rparr>))) = [1] \<and>
   fst (sellerFinancingLoop (initial_inputs\<lparr>termLength := 1, interestRate := 12\<rparr>)) > 21525 \<and>
   foldl (+) 0 (map principal (cashFlow (calculateSellerFinancing
     (initial_inputs\<lparr>termLength := 1, interestRate := 12\<rparr>)))) > 478474 \<and>
   foldl (+) 0 (map principal (cashFlow (calculateSellerFinancing
     (initial_inputs\<lparr>termLength := 1, interestRate := 12\<rparr>)))) < 478475"
  by (simp add: valid_inputs_def initial_inputs_def cashFlow_calculateSellerFinancing
        sellerFinancingLoop_def calculateMonthlyPayment_def Let_def forYears.simps power_divide)

section \<open>Earn-out over one year\<close>


lemma fin_times_Fin [simp]: "fin (x * Fin a) \<longleftrightarrow> fin x"
  by (cases x) simp_all






section \<open>The schedules\<close>

text \<open>
  Whatever numbers the loops handle, the rows are numbered by year from 1 and each row's
  \<open>cumulative\<close> is the value computed as the previous one plus the row's net cash flow; and
  each row that is a single payment has the net cash flow computed as its pre-tax total plus
  its tax impact.  The proofs keep the invariant \<open>running\<close> through each loop with the loop
  rule.  They use three laws of arithmetic only, which hold of every number, finite or not,
  and of the doubles of the program as well: \<open>x - y = x + (- y)\<close>, \<open>x + 0 = x\<close> and
  \<open>0 + x = x\<close>.
\<close>

lemma number_add_0: "x + Fin 0 = x"
  by (cases x) simp_all

lemma number_0_add: "Fin 0 + x = x"
  by (cases x) simp_all

lemma schedule_ok_Nil [simp]: "schedule_ok P []"
  by (simp add: schedule_ok_def)

lemma schedule_ok_snoc:
  assumes "schedule_ok P rows" and "P row" and "year row = int (length rows) + 1"
    and "rows = [] \<Longrightarrow> cumulative row = netCashFlow row"
    and "rows \<noteq> [] \<Longrightarrow> cumulative row = cumulative (last rows) + netCashFlow row"
  shows "schedule_ok P (rows @ [row])"
  unfolding schedule_ok_def
proof (intro allI impI)
  fix k assume "k < length (rows @ [row])"
  then consider "k < length rows" | "k = length rows" by fastforce
  then show "P ((rows @ [row]) ! k) \<and> year ((rows @ [row]) ! k) = int k + 1 \<and>
        (if k = 0 then cumulative ((rows @ [row]) ! k) = netCashFlow ((rows @ [row]) ! k)
         else cumulative ((rows @ [row]) ! k) =
              cumulative ((rows @ [row]) ! (k - 1)) + netCashFlow ((rows @ [row]) ! k))"
  proof cases
    case 1
    with assms(1) have old: "P (rows ! k) \<and> year (rows ! k) = int k + 1 \<and>
        (if k = 0 then cumulative (rows ! k) = netCashFlow (rows ! k)
         else cumulative (rows ! k) = cumulative (rows ! (k - 1)) + netCashFlow (rows ! k))"
      unfolding schedule_ok_def by blast
    have nth: "(rows @ [row]) ! k = rows ! k" "(rows @ [row]) ! (k - 1) = rows ! (k - 1)"
      using 1 by (simp_all add: nth_append)
    show ?thesis unfolding nth by (rule old)
  next
    case 2
    show ?thesis
    proof (cases "rows = []")
      case True
      then show ?thesis using 2 assms(2-4) by simp
    next
      case False
      then have "last rows = rows ! (k - 1)" "0 < k" using 2 by (simp_all add: last_conv_nth)
      then show ?thesis using 2 False assms(2,3,5) by (simp add: nth_append)
    qed
  qed
qed

lemma running_step:
  assumes "running P y cum rows" and "P row" and "year row = y"
    and "if y = 1 then cumulative row = netCashFlow row
         else cumulative row = cum + netCashFlow row"
  shows "running P (y + 1) (cumulative row) (rows @ [row])"
proof -
  from assms(1) have y: "y = int (length rows) + 1" and ok: "schedule_ok P rows"
    and last: "rows \<noteq> [] \<Longrightarrow> cum = cumulative (last rows)"
    by (simp_all add: running_def)
  have "schedule_ok P (rows @ [row])"
  proof (rule schedule_ok_snoc [OF ok assms(2)])
    show "year row = int (length rows) + 1" using assms(3) y by simp
    show "cumulative row = netCashFlow row" if "rows = []"
      using that y assms(4) by simp
    show "cumulative row = cumulative (last rows) + netCashFlow row" if "rows \<noteq> []"
    proof -
      from that y have "y \<noteq> 1" by simp
      with assms(4) last [OF that] show ?thesis by simp
    qed
  qed
  then show ?thesis using y by (simp add: running_def)
qed

lemma running_step3:
  assumes "running P y cum rows"
    and "\<exists>rb' row. res = (rb', cumulative row, rows @ [row]) \<and> P row \<and> year row = y \<and>
           (if y = 1 then cumulative row = netCashFlow row
            else cumulative row = cum + netCashFlow row)"
  shows "case res of (rb', cum', rows') \<Rightarrow> running P (y + 1) cum' rows'"
proof -
  from assms(2) obtain rb' row where res: "res = (rb', cumulative row, rows @ [row])"
    and row: "P row" "year row = y"
      "if y = 1 then cumulative row = netCashFlow row else cumulative row = cum + netCashFlow row"
    by blast
  then show ?thesis using running_step [OF assms(1) row] by simp
qed

lemma running_step2:
  assumes "running P y cum rows"
    and "\<exists>row. res = (cumulative row, rows @ [row]) \<and> P row \<and> year row = y \<and>
           (if y = 1 then cumulative row = netCashFlow row
            else cumulative row = cum + netCashFlow row)"
  shows "case res of (cum', rows') \<Rightarrow> running P (y + 1) cum' rows'"
proof -
  from assms(2) obtain row where res: "res = (cumulative row, rows @ [row])"
    and row: "P row" "year row = y"
      "if y = 1 then cumulative row = netCashFlow row else cumulative row = cum + netCashFlow row"
    by blast
  then show ?thesis using running_step [OF assms(1) row] by simp
qed

text \<open>The bodies of the loops keep the invariant, for numbers of any kind.\<close>

lemma sellerFinancingYear_inv:
  assumes "running (\<lambda>row. year row \<noteq> 1 \<longrightarrow> row_reconciles row) y cum rows"
  shows "case sellerFinancingYear ir tr dp ap dtx dn y (rb, cum, rows) of
           (rb', cum', rows') \<Rightarrow>
             running (\<lambda>row. year row \<noteq> 1 \<longrightarrow> row_reconciles row) (y + 1) cum' rows'"
  by (rule running_step3 [OF assms]) (simp add: Let_def row_reconciles_def minus_number_def)

lemma sbaLoanYear_inv:
  assumes "running (\<lambda>row. True) y cum rows"
  shows "case sbaLoanYear pp ir tr dp ap dtx y (rb, cum, rows) of
           (rb', cum', rows') \<Rightarrow> running (\<lambda>row. True) (y + 1) cum' rows'"
  by (rule running_step3 [OF assms]) (simp add: Let_def)

lemma customYear_inv:
  assumes "running (\<lambda>row. year row \<noteq> 1 \<longrightarrow> row_reconciles row) y cum rows"
  shows "case customYear T ir tr ip bl ap itx inet y (rb, cum, rows) of
           (rb', cum', rows') \<Rightarrow>
             running (\<lambda>row. year row \<noteq> 1 \<longrightarrow> row_reconciles row) (y + 1) cum' rows'"
  by (rule running_step3 [OF assms]) (simp add: Let_def row_reconciles_def minus_number_def)

lemma earnOutYear_inv:
  assumes "running row_reconciles y cum rows" and "y \<noteq> 1"
  shows "case earnOutYear tr ae y (cum, rows) of
           (cum', rows') \<Rightarrow> running row_reconciles (y + 1) cum' rows'"
  by (rule running_step2 [OF assms(1)])
     (use assms(2) in \<open>simp add: Let_def row_reconciles_def minus_number_def\<close>)

text \<open>The loops.\<close>

lemma sellerFinancingLoop_ok:
  assumes "1 \<le> termLength i"
  shows "schedule_ok (\<lambda>row. year row \<noteq> 1 \<longrightarrow> row_reconciles row)
           (snd (snd (sellerFinancingLoop i))) \<and>
         snd (snd (sellerFinancingLoop i)) \<noteq> []"
  unfolding sellerFinancingLoop_def Let_def
proof (rule forYears_ran
    [where I = "\<lambda>y s. case s of (rb, cum, rows) \<Rightarrow>
                  running (\<lambda>row. year row \<noteq> 1 \<longrightarrow> row_reconciles row) y cum rows"
       and Q = "\<lambda>s. schedule_ok (\<lambda>row. year row \<noteq> 1 \<longrightarrow> row_reconciles row) (snd (snd s)) \<and>
                  snd (snd s) \<noteq> []"], goal_cases)
  case 1
  show ?case by (rule assms)
next
  case 2
  show ?case by (simp add: running_def)
next
  case (3 y s)
  obtain rb cum rows where s: "s = (rb, cum, rows)" by (cases s)
  with 3(3) have "running (\<lambda>row. year row \<noteq> 1 \<longrightarrow> row_reconciles row) y cum rows" by simp
  from sellerFinancingYear_inv [OF this] show ?case unfolding s .
next
  case (4 y s)
  then show ?case by (cases s) (auto simp: running_def)
qed

lemma sbaLoanLoop_ok:
  assumes "1 \<le> termLength i"
  shows "schedule_ok (\<lambda>row. True) (snd (snd (sbaLoanLoop i))) \<and>
         snd (snd (sbaLoanLoop i)) \<noteq> []"
  unfolding sbaLoanLoop_def Let_def
proof (rule forYears_ran
    [where I = "\<lambda>y s. case s of (rb, cum, rows) \<Rightarrow> running (\<lambda>row. True) y cum rows"
       and Q = "\<lambda>s. schedule_ok (\<lambda>row. True) (snd (snd s)) \<and> snd (snd s) \<noteq> []"], goal_cases)
  case 1
  show ?case by (rule assms)
next
  case 2
  show ?case by (simp add: running_def)
next
  case (3 y s)
  obtain rb cum rows where s: "s = (rb, cum, rows)" by (cases s)
  with 3(3) have "running (\<lambda>row. True) y cum rows" by simp
  from sbaLoanYear_inv [OF this] show ?case unfolding s .
next
  case (4 y s)
  then show ?case by (cases s) (auto simp: running_def)
qed

lemma customLoop_ok:
  assumes "1 \<le> termLength i"
  shows "schedule_ok (\<lambda>row. year row \<noteq> 1 \<longrightarrow> row_reconciles row) (snd (snd (customLoop i))) \<and>
         snd (snd (customLoop i)) \<noteq> []"
  unfolding customLoop_def customLoopFrom_def Let_def
proof (rule forYears_ran
    [where I = "\<lambda>y s. case s of (rb, cum, rows) \<Rightarrow>
                  running (\<lambda>row. year row \<noteq> 1 \<longrightarrow> row_reconciles row) y cum rows"
       and Q = "\<lambda>s. schedule_ok (\<lambda>row. year row \<noteq> 1 \<longrightarrow> row_reconciles row) (snd (snd s)) \<and>
                  snd (snd s) \<noteq> []"], goal_cases)
  case 1
  show ?case by (rule assms)
next
  case 2
  show ?case by (simp add: running_def)
next
  case (3 y s)
  obtain rb cum rows where s: "s = (rb, cum, rows)" by (cases s)
  with 3(3) have "running (\<lambda>row. year row \<noteq> 1 \<longrightarrow> row_reconciles row) y cum rows" by simp
  from customYear_inv [OF this] show ?case unfolding s .
next
  case (4 y s)
  then show ?case by (cases s) (auto simp: running_def)
qed

lemma earnOutLoop_ok:
  "schedule_ok row_reconciles (snd (earnOutLoop i)) \<and> snd (earnOutLoop i) \<noteq> []"
  unfolding earnOutLoop_def Let_def
proof (rule forYears_rule
    [where I = "\<lambda>y s. case s of (cum, rows) \<Rightarrow> 2 \<le> y \<and> running row_reconciles y cum rows"
       and Q = "\<lambda>s. schedule_ok row_reconciles (snd s) \<and> snd s \<noteq> []"], goal_cases)
  case 1
  show ?case
    by (simp add: running_def schedule_ok_def row_reconciles_def minus_number_def number_0_add)
next
  case (2 y s)
  obtain cum rows where s: "s = (cum, rows)" by (cases s)
  with 2(3) have inv: "running row_reconciles y cum rows" by simp
  from 2(1) have "y \<noteq> 1" by simp
  from earnOutYear_inv [OF inv this] 2(1) show ?case unfolding s by auto
next
  case (3 y s)
  then show ?case by (cases s) (auto simp: running_def)
qed

lemma allCash_ok:
  assumes "calculateAllCash i = Inr r"
  shows "schedule_ok row_reconciles (cashFlow r) \<and> cashFlow r \<noteq> []"
proof -
  define np where "np = purchasePrice i - purchasePrice i * (taxRate i / 100)"
  define row1 where "row1 =
    \<lparr>year = 1, principal = purchasePrice i, interest = 0, equityReturns = 0,
     preTaxTotal = purchasePrice i, taxImpact = - (purchasePrice i * (taxRate i / 100)),
     netCashFlow = np, cumulative = np\<rparr>"
  from assms have rows: "cashFlow r =
      forYears (allCashYear np) (\<lambda>s. False) 2 (termLength i) [row1]"
    by (auto simp: calculateAllCash_def Let_def np_def row1_def split: if_splits)
  show ?thesis unfolding rows
  proof (rule forYears_rule [where I = "\<lambda>y rows. 2 \<le> y \<and> running row_reconciles y np rows"])
    show "2 \<le> (2::int) \<and> running row_reconciles 2 np [row1]"
      by (simp add: running_def schedule_ok_def row_reconciles_def row1_def np_def
            minus_number_def)
  next
    fix year rows assume year: "2 \<le> year" and "2 \<le> year \<and> running row_reconciles year np rows"
    then have inv: "running row_reconciles year np rows" by simp
    let ?row = "\<lparr>year = year, principal = 0, interest = 0, equityReturns = 0, preTaxTotal = 0,
         taxImpact = 0, netCashFlow = 0, cumulative = np\<rparr>"
    have "running row_reconciles (year + 1) (cumulative ?row) (rows @ [?row])"
      by (rule running_step [OF inv])
         (use year in \<open>simp_all add: row_reconciles_def number_add_0\<close>)
    then show "2 \<le> year + 1 \<and> running row_reconciles (year + 1) np (allCashYear np year rows)"
      using year by (simp add: allCashYear_def)
  next
    fix year :: int and rows :: "CashFlowRow list"
    assume "2 \<le> year \<and> running row_reconciles year np rows"
    then show "schedule_ok row_reconciles rows \<and> rows \<noteq> []" by (auto simp: running_def)
  qed
qed

lemma schedule_ok_mono:
  "schedule_ok P rows \<Longrightarrow> (\<And>row. P row \<Longrightarrow> Q row) \<Longrightarrow> schedule_ok Q rows"
  unfolding schedule_ok_def by blast

lemma calculateDealStructure_returns:
  assumes "1 \<le> termLength i" and "termLength i \<le> 30"
  shows "\<exists>r. calculateDealStructure dt i = Inr r"
  using assms
  by (cases dt)
     (simp_all add: calculateDealStructure_def calculateAllCash_def Let_def validArrayLength_def)

lemma results_schedule_ok:
  assumes "1 \<le> termLength i" and "calculateDealStructure dt i = Inr r"
  shows "schedule_ok (\<lambda>row. single_payment_row dt row \<longrightarrow> row_reconciles row) (cashFlow r) \<and>
         cashFlow r \<noteq> []"
proof (cases dt)
  case AllCash
  with assms(2) have "calculateAllCash i = Inr r" by (simp add: calculateDealStructure_def)
  from allCash_ok [OF this] show ?thesis by (auto elim: schedule_ok_mono)
next
  case EarnOut
  with assms(2) have "r = calculateEarnOut i" by (simp add: calculateDealStructure_def)
  with earnOutLoop_ok [of i] show ?thesis
    by (auto simp: cashFlow_calculateEarnOut elim: schedule_ok_mono)
next
  case SellerFinancing
  with assms(2) have "r = calculateSellerFinancing i" by (simp add: calculateDealStructure_def)
  with sellerFinancingLoop_ok [OF assms(1)] SellerFinancing show ?thesis
    by (auto simp: cashFlow_calculateSellerFinancing single_payment_row_def elim: schedule_ok_mono)
next
  case SBALoan
  with assms(2) have "r = calculateSBALoan i" by (simp add: calculateDealStructure_def)
  with sbaLoanLoop_ok [OF assms(1)] SBALoan show ?thesis
    by (auto simp: cashFlow_calculateSBALoan single_payment_row_def elim: schedule_ok_mono)
next
  case Custom
  with assms(2) have "r = calculateCustom i" by (simp add: calculateDealStructure_def)
  with customLoop_ok [OF assms(1)] Custom show ?thesis
    by (auto simp: cashFlow_calculateCustom single_payment_row_def elim: schedule_ok_mono)
qed

section \<open>Net cash flow of a row\<close>

text \<open>
  Claim C1, as stated, fails for the SBA loan, whose rows report the buyer's return: the net
  cash flow is the net equity growth minus the loan payment after tax (minus the down payment
  in year 1), while the pre-tax total adds the payment and the equity growth.  With the initial
  inputs at 0% interest, year 1 has a net cash flow of -80000 against a pre-tax total plus tax
  impact of 75000.
\<close>

theorem sba_net_cash_flow_counterexample:
  "valid_inputs (initial_inputs\<lparr>interestRate := 0\<rparr>) \<and>
   calculateDealStructure SBALoan (initial_inputs\<lparr>interestRate := 0\<rparr>) =
     Inr (calculateSBALoan (initial_inputs\<lparr>interestRate := 0\<rparr>)) \<and>
   netCashFlow (hd (cashFlow (calculateSBALoan (initial_inputs\<lparr>interestRate := 0\<rparr>)))) = - 80000 \<and>
   preTaxTotal (hd (cashFlow (calculateSBALoan (initial_inputs\<lparr>interestRate := 0\<rparr>)))) +
   taxImpact (hd (cashFlow (calculateSBALoan (initial_inputs\<lparr>interestRate := 0\<rparr>)))) = 75000"
  by (simp add: valid_inputs_def initial_inputs_def calculateDealStructure_def
        cashFlow_calculateSBALoan sbaLoanLoop_def calculateMonthlyPayment_def number_of_int_def
        Let_def forYears.simps)

text \<open>
  Claim C1, amended.  For every deal type and all inputs that satisfy the stated preconditions,
  the calculator returns normally, and every row of the returned schedule that is a single
  payment (every row of the all-cash and earn-out structures, every row after year 1 of seller
  financing and of the custom structure) and whose net cash flow is a number (not \<open>NaN\<close>) has a
  net cash flow equal to its pre-tax total plus its tax impact.  In these rows the net cash flow
  is the payment minus its tax, the pre-tax total is the payment and the tax impact is the
  negated tax, so the two sides are the same difference.
\<close>

theorem net_cash_flow_reconciles:
  assumes "stated_preconditions inputs"
  shows "\<exists>r. calculateDealStructure dt inputs = Inr r \<and>
           (\<forall>row \<in> set (cashFlow r).
              single_payment_row dt row \<and> netCashFlow row \<noteq> NaN \<longrightarrow>
              strictly_equal (netCashFlow row) (preTaxTotal row + taxImpact row))"
proof -
  from assms have T: "1 \<le> termLength inputs" "termLength inputs \<le> 30"
    by (simp_all add: stated_preconditions_def)
  from T obtain r where r: "calculateDealStructure dt inputs = Inr r"
    using calculateDealStructure_returns by blast
  have "strictly_equal (netCashFlow row) (preTaxTotal row + taxImpact row)"
    if "row \<in> set (cashFlow r)" and "single_payment_row dt row" and "netCashFlow row \<noteq> NaN"
    for row
  proof -
    from that(1) obtain k where "k < length (cashFlow r)" "row = cashFlow r ! k"
      by (auto simp: in_set_conv_nth)
    with results_schedule_ok [OF T(1) r] that(2)
    have "row_reconciles row" unfolding schedule_ok_def by blast
    with that(3) show ?thesis unfolding strictly_equal_def row_reconciles_def by simp
  qed
  with r show ?thesis by blast
qed

theorem net_cash_flow_reconciles_witness:
  "stated_preconditions (initial_inputs\<lparr>interestRate := 0\<rparr>) \<and>
   calculateDealStructure SellerFinancing (initial_inputs\<lparr>interestRate := 0\<rparr>) =
     Inr (calculateSellerFinancing (initial_inputs\<lparr>interestRate := 0\<rparr>)) \<and>
   cashFlow (calculateSellerFinancing (initial_inputs\<lparr>interestRate := 0\<rparr>)) ! 1
     \<in> set (cashFlow (calculateSellerFinancing (initial_inputs\<lparr>interestRate := 0\<rparr>))) \<and>
   single_payment_row SellerFinancing
     (cashFlow (calculateSellerFinancing (initial_inputs\<lparr>interestRate := 0\<rparr>)) ! 1) \<and>
   netCashFlow (cashFlow (calculateSellerFinancing (initial_inputs\<lparr>interestRate := 0\<rparr>)) ! 1)
     \<noteq> NaN \<and>
   strictly_equal
     (netCashFlow (cashFlow (calculateSellerFinancing (initial_inputs\<lparr>interestRate := 0\<rparr>)) ! 1))
     (preTaxTotal (cashFlow (calculateSellerFinancing (initial_inputs\<lparr>interestRate := 0\<rparr>)) ! 1) +
      taxImpact (cashFlow (calculateSellerFinancing (initial_inputs\<lparr>interestRate := 0\<rparr>)) ! 1))"
proof -
  let ?i = "initial_inputs\<lparr>interestRate := 0\<rparr>"
  let ?row = "cashFlow (calculateSellerFinancing ?i) ! 1"
  have v: "stated_preconditions ?i"
    by (simp add: stated_preconditions_def initial_inputs_def)
  have r: "calculateDealStructure SellerFinancing ?i = Inr (calculateSellerFinancing ?i)"
    by (simp add: calculateDealStructure_def)
  have row: "?row \<in> set (cashFlow (calculateSellerFinancing ?i))"
    and single: "single_payment_row SellerFinancing ?row"
    and number: "netCashFlow ?row \<noteq> NaN"
    by (simp_all add: initial_inputs_def cashFlow_calculateSellerFinancing sellerFinancingLoop_def
          calculateMonthlyPayment_def Let_def forYears.simps number_of_int_def
          single_payment_row_def)
  from net_cash_flow_reconciles [OF v, of SellerFinancing] r row single number
  have "strictly_equal (netCashFlow ?row) (preTaxTotal ?row + taxImpact ?row)"
    by auto
  with v r row single number show ?thesis by simp
qed

section \<open>Cumulative cash flow\<close>

text \<open>
  Claim C3, as stated, fails where a value of the schedule is \<open>NaN\<close>, which is equal to
  nothing, itself included.  With the initial inputs and a purchase price of \<open>Infinity\<close> (a
  price above 0), the earn-out's upfront payment and the tax on it are both \<open>Infinity\<close>, so the
  net cash flow of year 1 is \<open>Infinity - Infinity = NaN\<close>, and so is its \<open>cumulative\<close>.  (In
  double arithmetic the same rows arise from finite inputs whose sums overflow; the numbers of
  this development are exact and do not overflow.)
\<close>

theorem nan_cumulative_counterexample:
  "stated_preconditions (initial_inputs\<lparr>purchasePrice := PInf\<rparr>) \<and>
   calculateDealStructure EarnOut (initial_inputs\<lparr>purchasePrice := PInf\<rparr>) =
     Inr (calculateEarnOut (initial_inputs\<lparr>purchasePrice := PInf\<rparr>)) \<and>
   netCashFlow (hd (cashFlow (calculateEarnOut (initial_inputs\<lparr>purchasePrice := PInf\<rparr>)))) = NaN \<and>
   cumulative (hd (cashFlow (calculateEarnOut (initial_inputs\<lparr>purchasePrice := PInf\<rparr>)))) = NaN \<and>
   \<not> strictly_equal
       (cumulative (hd (cashFlow (calculateEarnOut (initial_inputs\<lparr>purchasePrice := PInf\<rparr>)))))
       (netCashFlow (hd (cashFlow (calculateEarnOut (initial_inputs\<lparr>purchasePrice := PInf\<rparr>)))))"
  by (simp add: stated_preconditions_def initial_inputs_def calculateDealStructure_def
        cashFlow_calculateEarnOut earnOutLoop_def number_of_int_def strictly_equal_def
        minus_number_def Let_def forYears.simps)

text \<open>
  Claim C3, amended.  For every deal type and all inputs that satisfy the stated preconditions,
  the calculator returns normally with a schedule that is not empty; the row at position \<open>k\<close>
  is that of year \<open>k + 1\<close>; and whenever its \<open>cumulative\<close> is a number (not \<open>NaN\<close>), it is equal
  to the row's net cash flow in year 1, and to the previous row's \<open>cumulative\<close> plus the row's
  net cash flow in every later year.
\<close>

theorem cumulative_running_sum:
  assumes "stated_preconditions inputs"
  shows "\<exists>r. calculateDealStructure dt inputs = Inr r \<and> cashFlow r \<noteq> [] \<and>
           (\<forall>k<length (cashFlow r).
              year (cashFlow r ! k) = int k + 1 \<and>
              (cumulative (cashFlow r ! k) \<noteq> NaN \<longrightarrow>
               (if k = 0
                then strictly_equal (cumulative (cashFlow r ! k)) (netCashFlow (cashFlow r ! k))
                else strictly_equal (cumulative (cashFlow r ! k))
                       (cumulative (cashFlow r ! (k - 1)) + netCashFlow (cashFlow r ! k)))))"
proof -
  from assms have T: "1 \<le> termLength inputs" "termLength inputs \<le> 30"
    by (simp_all add: stated_preconditions_def)
  from T obtain r where r: "calculateDealStructure dt inputs = Inr r"
    using calculateDealStructure_returns by blast
  from results_schedule_ok [OF T(1) r]
  have ok: "schedule_ok (\<lambda>row. single_payment_row dt row \<longrightarrow> row_reconciles row) (cashFlow r)"
    and ne: "cashFlow r \<noteq> []" by simp_all
  have "year (cashFlow r ! k) = int k + 1 \<and>
        (cumulative (cashFlow r ! k) \<noteq> NaN \<longrightarrow>
         (if k = 0
          then strictly_equal (cumulative (cashFlow r ! k)) (netCashFlow (cashFlow r ! k))
          else strictly_equal (cumulative (cashFlow r ! k))
                 (cumulative (cashFlow r ! (k - 1)) + netCashFlow (cashFlow r ! k))))"
    if "k < length (cashFlow r)" for k
  proof -
    from ok that
    have "year (cashFlow r ! k) = int k + 1" and
      "if k = 0 then cumulative (cashFlow r ! k) = netCashFlow (cashFlow r ! k)
       else cumulative (cashFlow r ! k) =
            cumulative (cashFlow r ! (k - 1)) + netCashFlow (cashFlow r ! k)"
      unfolding schedule_ok_def by blast+
    then show ?thesis unfolding strictly_equal_def by (cases "k = 0") simp_all
  qed
  with r ne show ?thesis by blast
qed

theorem cumulative_running_sum_witness:
  "stated_preconditions (initial_inputs\<lparr>interestRate := 0\<rparr>) \<and>
   calculateDealStructure SellerFinancing (initial_inputs\<lparr>interestRate := 0\<rparr>) =
     Inr (calculateSellerFinancing (initial_inputs\<lparr>interestRate := 0\<rparr>)) \<and>
   1 < length (cashFlow (calculateSellerFinancing (initial_inputs\<lparr>interestRate := 0\<rparr>))) \<and>
   cumulative (cashFlow (calculateSellerFinancing (initial_inputs\<lparr>interestRate := 0\<rparr>)) ! 1)
     \<noteq> NaN \<and>
   strictly_equal
     (cumulative (cashFlow (calculateSellerFinancing (initial_inputs\<lparr>interestRate := 0\<rparr>)) ! 1))
     (cumulative (cashFlow (calculateSellerFinancing (initial_inputs\<lparr>interestRate := 0\<rparr>)) ! 0) +
      netCashFlow (cashFlow (calculateSellerFinancing (initial_inputs\<lparr>interestRate := 0\<rparr>)) ! 1))"
proof -
  let ?i = "initial_inputs\<lparr>interestRate := 0\<rparr>"
  let ?rows = "cashFlow (calculateSellerFinancing ?i)"
  have v: "stated_preconditions ?i"
    by (simp add: stated_preconditions_def initial_inputs_def)
  have r: "calculateDealStructure SellerFinancing ?i = Inr (calculateSellerFinancing ?i)"
    by (simp add: calculateDealStructure_def)
  have len: "1 < length ?rows" and number: "cumulative (?rows ! 1) \<noteq> NaN"
    by (simp_all add: initial_inputs_def cashFlow_calculateSellerFinancing sellerFinancingLoop_def
          calculateMonthlyPayment_def Let_def forYears.simps number_of_int_def)
  from cumulative_running_sum [OF v, of SellerFinancing] r len number
  have "strictly_equal (cumulative (?rows ! 1)) (cumulative (?rows ! 0) + netCashFlow (?rows ! 1))"
    by auto
  with v r len number show ?thesis by simp
qed

end
